theory Spec2Isabelle
  imports Complex_Main
begin

section \<open>Python values and the operations the exporter applies to them\<close>

text \<open>
  \<^verbatim>\<open>run_google_serp.py\<close> walks the document that \<^verbatim>\<open>response.json()\<close> returns. Such a
  document is a Python value built from \<^verbatim>\<open>None\<close>, booleans, numbers, strings, lists and
  dictionaries. A dictionary is kept as the list of its items in insertion order (the order
  matters when rows are dumped as JSON); its keys are strings. Numbers carry an integer:
  the code only ever tests a number for being zero and copies it.

  The Python names are kept, without the leading underscore of the private functions
  (\<^verbatim>\<open>_extract_organic_rows\<close> is \<open>extract_organic_rows\<close>, \<^verbatim>\<open>_load_keywords\<close> is
  \<open>load_keywords\<close>).
\<close>

datatype json =
    JNull
  | JBool bool
  | JNum int
  | JStr string
  | JArr "json list"
  | JObj "(string \<times> json) list"

text \<open>The exceptions that the operations below raise in Python.\<close>

datatype py_exn = AttributeError | TypeError | KeyError | IndexError

text \<open>A row is the dictionary that the extraction functions append to \<^verbatim>\<open>rows\<close>.\<close>

type_synonym row = "(string \<times> json) list"

text \<open>Truth value testing: \<^verbatim>\<open>if x:\<close> and the left operand of \<^verbatim>\<open>x or y\<close>.\<close>

fun truthy :: "json \<Rightarrow> bool" where
  "truthy JNull = False"
| "truthy (JBool b) = b"
| "truthy (JNum n) = (n \<noteq> 0)"
| "truthy (JStr s) = (s \<noteq> [])"
| "truthy (JArr xs) = (xs \<noteq> [])"
| "truthy (JObj kvs) = (kvs \<noteq> [])"

definition py_or :: "json \<Rightarrow> json \<Rightarrow> json" where
  "py_or x y = (if truthy x then x else y)"

text \<open>\<^verbatim>\<open>d.get(k)\<close> on a dictionary: the value, or \<^verbatim>\<open>None\<close> when the key is absent.\<close>

definition dict_get :: "(string \<times> json) list \<Rightarrow> string \<Rightarrow> json" where
  "dict_get kvs k = (case map_of kvs k of None \<Rightarrow> JNull | Some v \<Rightarrow> v)"

text \<open>
  \<^verbatim>\<open>x.get(k)\<close> on any value: only a dictionary has the method, every other value raises
  \<^verbatim>\<open>AttributeError\<close>.
\<close>

fun py_get :: "json \<Rightarrow> string \<Rightarrow> py_exn + json" where
  "py_get (JObj kvs) k = Inr (dict_get kvs k)"
| "py_get _ k = Inl AttributeError"

text \<open>
  \<^verbatim>\<open>for x in xs\<close>: a list yields its elements, a dictionary its keys, a string its
  characters (as one-character strings); the other values are not iterable.
\<close>

fun py_iter :: "json \<Rightarrow> py_exn + json list" where
  "py_iter (JArr xs) = Inr xs"
| "py_iter (JObj kvs) = Inr (map (\<lambda>kv. JStr (fst kv)) kvs)"
| "py_iter (JStr s) = Inr (map (\<lambda>c. JStr [c]) s)"
| "py_iter _ = Inl TypeError"

text \<open>\<^verbatim>\<open>len(x)\<close>.\<close>

fun py_len :: "json \<Rightarrow> py_exn + int" where
  "py_len (JArr xs) = Inr (int (length xs))"
| "py_len (JObj kvs) = Inr (int (length kvs))"
| "py_len (JStr s) = Inr (int (length s))"
| "py_len _ = Inl TypeError"

text \<open>
  \<^verbatim>\<open>x[0]\<close>: the head of a list, the first character of a string, \<^verbatim>\<open>IndexError\<close> when
  either is empty; a dictionary with string keys has no key \<^verbatim>\<open>0\<close>; the other values
  are not subscriptable.
\<close>

fun py_first :: "json \<Rightarrow> py_exn + json" where
  "py_first (JArr []) = Inl IndexError"
| "py_first (JArr (x # xs)) = Inr x"
| "py_first (JStr []) = Inl IndexError"
| "py_first (JStr (c # s)) = Inr (JStr [c])"
| "py_first (JObj kvs) = Inl KeyError"
| "py_first _ = Inl TypeError"

text \<open>
  A loop whose body appends rows: the bodies run in order, the rows they append are
  concatenated, and the first exception ends the loop (and the calling function).
\<close>

fun for_rows :: "(json \<Rightarrow> py_exn + row list) \<Rightarrow> json list \<Rightarrow> py_exn + row list" where
  "for_rows body [] = Inr []"
| "for_rows body (x # xs) =
     (case body x of
        Inl e \<Rightarrow> Inl e
      | Inr rs \<Rightarrow> (case for_rows body xs of Inl e \<Rightarrow> Inl e | Inr rs' \<Rightarrow> Inr (rs @ rs')))"

definition for_each :: "json \<Rightarrow> (json \<Rightarrow> py_exn + row list) \<Rightarrow> py_exn + row list" where
  "for_each xs body = (case py_iter xs of Inl e \<Rightarrow> Inl e | Inr ys \<Rightarrow> for_rows body ys)"

section \<open>Row extraction\<close>

text \<open>
  The three extraction functions open with the same three nested loops over
  \<^verbatim>\<open>tasks\<close>, \<^verbatim>\<open>result\<close> and \<^verbatim>\<open>items\<close>; they differ in what they do with an item.
  \<open>for_each_item\<close> is that shared traversal; its argument \<open>body\<close> receives
  \<^verbatim>\<open>result_keyword\<close> and the item.
\<close>

definition for_each_result ::
  "(json \<Rightarrow> json \<Rightarrow> py_exn + row list) \<Rightarrow> json \<Rightarrow> json \<Rightarrow> py_exn + row list" where
  "for_each_result body task_keyword result =
     (case py_get result ''keyword'' of
        Inl e \<Rightarrow> Inl e
      | Inr rk \<Rightarrow>
          (let result_keyword = py_or rk task_keyword in
           case py_get result ''items'' of
             Inl e \<Rightarrow> Inl e
           | Inr its \<Rightarrow> for_each (py_or its (JArr [])) (body result_keyword)))"

definition for_each_task ::
  "(json \<Rightarrow> json \<Rightarrow> py_exn + row list) \<Rightarrow> string \<Rightarrow> json \<Rightarrow> py_exn + row list" where
  "for_each_task body keyword_fallback task =
     (case py_get task ''data'' of
        Inl e \<Rightarrow> Inl e
      | Inr d \<Rightarrow>
          (let task_data = py_or d (JObj []) in
           case py_get task_data ''keyword'' of
             Inl e \<Rightarrow> Inl e
           | Inr tk \<Rightarrow>
               (let task_keyword = py_or tk (JStr keyword_fallback) in
                case py_get task ''result'' of
                  Inl e \<Rightarrow> Inl e
                | Inr rs \<Rightarrow>
                    for_each (py_or rs (JArr [])) (for_each_result body task_keyword))))"

definition for_each_item ::
  "(json \<Rightarrow> json \<Rightarrow> py_exn + row list) \<Rightarrow> json \<Rightarrow> string \<Rightarrow> py_exn + row list" where
  "for_each_item body response_dict keyword_fallback =
     (case py_get response_dict ''tasks'' of
        Inl e \<Rightarrow> Inl e
      | Inr ts \<Rightarrow> for_each (py_or ts (JArr [])) (for_each_task body keyword_fallback))"

subsection \<open>AI Overview rows\<close>

text \<open>
  The row appended for one reference; \<open>md\<close> is the value stored under
  \<^verbatim>\<open>references_markdown\<close>.
\<close>

fun ai_overview_ref_row :: "json \<Rightarrow> json \<Rightarrow> json \<Rightarrow> py_exn + row list" where
  "ai_overview_ref_row result_keyword md (JObj ref) =
     Inr [[(''result_type'', JStr ''ai_overview''),
           (''keyword'', result_keyword),
           (''domain'', dict_get ref ''domain''),
           (''references_source'', py_or (dict_get ref ''source'') (dict_get ref ''title'')),
           (''references_url'', dict_get ref ''url''),
           (''references_text'', dict_get ref ''text''),
           (''references_markdown'', md)]]"
| "ai_overview_ref_row result_keyword md _ = Inl AttributeError"

fun ai_overview_component :: "json \<Rightarrow> json \<Rightarrow> json \<Rightarrow> py_exn + row list" where
  "ai_overview_component result_keyword sub_markdown (JObj component) =
     (let comp_markdown = py_or (dict_get component ''markdown'') sub_markdown in
      for_each (py_or (dict_get component ''references'') (JArr []))
        (ai_overview_ref_row result_keyword (py_or comp_markdown (JStr ''''))))"
| "ai_overview_component result_keyword sub_markdown _ = Inl AttributeError"

fun ai_overview_sub_item :: "json \<Rightarrow> json \<Rightarrow> json \<Rightarrow> py_exn + row list" where
  "ai_overview_sub_item result_keyword ai_markdown (JObj sub_item) =
     (let sub_markdown =
            py_or (py_or (dict_get sub_item ''markdown'') ai_markdown) (JStr '''') in
      case for_each (py_or (dict_get sub_item ''references'') (JArr []))
             (ai_overview_ref_row result_keyword sub_markdown) of
        Inl e \<Rightarrow> Inl e
      | Inr rs \<Rightarrow>
          (case for_each (py_or (dict_get sub_item ''components'') (JArr []))
                  (ai_overview_component result_keyword sub_markdown) of
             Inl e \<Rightarrow> Inl e
           | Inr rs' \<Rightarrow> Inr (rs @ rs')))"
| "ai_overview_sub_item result_keyword ai_markdown _ = Inl AttributeError"

fun ai_overview_item :: "json \<Rightarrow> json \<Rightarrow> py_exn + row list" where
  "ai_overview_item result_keyword (JObj item) =
     (if dict_get item ''type'' \<noteq> JStr ''ai_overview'' then Inr []
      else
        (let ai_markdown = dict_get item ''markdown'' in
         case for_each (py_or (dict_get item ''references'') (JArr []))
                (ai_overview_ref_row result_keyword (py_or ai_markdown (JStr ''''))) of
           Inl e \<Rightarrow> Inl e
         | Inr rs \<Rightarrow>
             (case for_each (py_or (dict_get item ''items'') (JArr []))
                     (ai_overview_sub_item result_keyword ai_markdown) of
                Inl e \<Rightarrow> Inl e
              | Inr rs' \<Rightarrow> Inr (rs @ rs'))))"
| "ai_overview_item result_keyword _ = Inl AttributeError"

definition extract_ai_overview_rows :: "json \<Rightarrow> string \<Rightarrow> py_exn + row list" where
  "extract_ai_overview_rows response_dict keyword_fallback =
     for_each_item ai_overview_item response_dict keyword_fallback"

subsection \<open>Organic rows\<close>

fun organic_item :: "json \<Rightarrow> json \<Rightarrow> py_exn + row list" where
  "organic_item result_keyword (JObj item) =
     (if dict_get item ''type'' \<noteq> JStr ''organic'' then Inr []
      else
        Inr [[(''result_type'', JStr ''organic''),
              (''keyword'', result_keyword),
              (''page'', dict_get item ''page''),
              (''rank_group'', dict_get item ''rank_group''),
              (''rank_absolute'', dict_get item ''rank_absolute''),
              (''position'', dict_get item ''position''),
              (''domain'', dict_get item ''domain''),
              (''url'', dict_get item ''url''),
              (''title'', dict_get item ''title''),
              (''description'', dict_get item ''description''),
              (''extended_snippet'', dict_get item ''extended_snippet''),
              (''breadcrumb'', dict_get item ''breadcrumb''),
              (''website_name'', dict_get item ''website_name'')]])"
| "organic_item result_keyword _ = Inl AttributeError"

definition extract_organic_rows :: "json \<Rightarrow> string \<Rightarrow> py_exn + row list" where
  "extract_organic_rows response_dict keyword_fallback =
     for_each_item organic_item response_dict keyword_fallback"

subsection \<open>AI Mode rows\<close>

fun ai_mode_ref_row :: "json \<Rightarrow> json \<Rightarrow> json \<Rightarrow> py_exn + row list" where
  "ai_mode_ref_row result_keyword ai_markdown (JObj ref) =
     Inr [[(''result_type'', JStr ''ai_mode''),
           (''keyword'', result_keyword),
           (''domain'', dict_get ref ''domain''),
           (''references_source'', py_or (dict_get ref ''source'') (dict_get ref ''title'')),
           (''references_url'', dict_get ref ''url''),
           (''references_text'', dict_get ref ''text''),
           (''references_markdown'', ai_markdown),
           (''ai_mode_summary'', JStr ''''),
           (''ai_mode_citations_count'', JStr ''''),
           (''ai_mode_primary_domain'', JStr ''''),
           (''ai_mode_primary_url'', JStr '''')]]"
| "ai_mode_ref_row result_keyword ai_markdown _ = Inl AttributeError"

text \<open>
  The primary citation: \<^verbatim>\<open>("", "")\<close> unless \<^verbatim>\<open>references\<close> tests true, and then the
  \<^verbatim>\<open>domain\<close> and \<^verbatim>\<open>url\<close> of \<^verbatim>\<open>references[0]\<close>.
\<close>

definition primary_citation :: "json \<Rightarrow> py_exn + json \<times> json" where
  "primary_citation references =
     (if truthy references then
        (case py_first references of
           Inl e \<Rightarrow> Inl e
         | Inr first_ref \<Rightarrow>
             (case py_get first_ref ''domain'' of
                Inl e \<Rightarrow> Inl e
              | Inr d \<Rightarrow>
                  (case py_get first_ref ''url'' of
                     Inl e \<Rightarrow> Inl e
                   | Inr u \<Rightarrow> Inr (py_or d (JStr ''''), py_or u (JStr '''')))))
      else Inr (JStr '''', JStr ''''))"

fun ai_mode_item :: "json \<Rightarrow> json \<Rightarrow> py_exn + row list" where
  "ai_mode_item result_keyword (JObj item) =
     (if dict_get item ''type'' \<noteq> JStr ''ai_overview'' then Inr []
      else
        (let ai_markdown = py_or (dict_get item ''markdown'') (JStr '''');
             references = py_or (dict_get item ''references'') (JArr [])
         in case py_len references of
              Inl e \<Rightarrow> Inl e
            | Inr citations_count \<Rightarrow>
                (case primary_citation references of
                   Inl e \<Rightarrow> Inl e
                 | Inr (primary_domain, primary_url) \<Rightarrow>
                     (case for_each references (ai_mode_ref_row result_keyword ai_markdown) of
                        Inl e \<Rightarrow> Inl e
                      | Inr rs \<Rightarrow>
                          Inr ([(''result_type'', JStr ''ai_mode''),
                                (''keyword'', result_keyword),
                                (''ai_mode_summary'', ai_markdown),
                                (''ai_mode_citations_count'', JNum citations_count),
                                (''ai_mode_primary_domain'', primary_domain),
                                (''ai_mode_primary_url'', primary_url),
                                (''domain'', primary_domain)] # rs)))))"
| "ai_mode_item result_keyword _ = Inl AttributeError"

definition extract_ai_mode_rows :: "json \<Rightarrow> string \<Rightarrow> py_exn + row list" where
  "extract_ai_mode_rows response_dict keyword_fallback =
     for_each_item ai_mode_item response_dict keyword_fallback"

section \<open>Fetch with retry\<close>

text \<open>The module constants that the fetch and the orchestrator read.\<close>

definition MAX_RETRIES :: nat where
  "MAX_RETRIES = 3"

definition RETRY_DELAY_BASE :: real where
  "RETRY_DELAY_BASE = 1"

definition LOAD_GOOGLE_AI_MODE :: bool where
  "LOAD_GOOGLE_AI_MODE = True"

text \<open>
  What one pass through the \<^verbatim>\<open>try\<close> block observes: a response with its status and the
  value of \<^verbatim>\<open>response.json()\<close>, or one of the two exception classes that the block
  handles. The provider is a function from the attempt number to that observation.
\<close>

datatype attempt = Response int json | TimeoutError | ClientError

datatype endpoint = Organic | AiMode

text \<open>The lines written to standard error, by the place that writes them.\<close>

datatype message =
    ApiError endpoint string int
  | TimeoutMessage endpoint string
  | ConnectionError endpoint string
  | KeywordsFileNotFound
  | NoKeywordsFound

text \<open>
  The effects of a run, in the order in which they happen: taking and giving back the
  semaphore, a POST to an endpoint for a keyword, a sleep of so many seconds, a line on
  standard error, and the two output files with the rows written to them.
\<close>

datatype event =
    Acquire
  | Release
  | Post endpoint string
  | Sleep real
  | Stderr message
  | WriteCsv "row list"
  | WriteJson "row list"

definition after_events :: "event list \<Rightarrow> 'a \<times> event list \<Rightarrow> 'a \<times> event list" where
  "after_events es r = (fst r, es @ snd r)"

text \<open>
  The body of \<^verbatim>\<open>for attempt in range(MAX_RETRIES)\<close>, which \<^verbatim>\<open>fetch_serp_data\<close> and
  \<^verbatim>\<open>fetch_ai_mode_data\<close> share up to the URL and the wording of the messages. The list
  holds the attempt numbers still to run; \<^verbatim>\<open>continue\<close> is the recursive call; running
  out of attempts reaches the \<^verbatim>\<open>return (keyword, None)\<close> that follows the loop.
\<close>

fun attempts :: "endpoint \<Rightarrow> string \<Rightarrow> (nat \<Rightarrow> attempt) \<Rightarrow> nat list \<Rightarrow> json \<times> event list" where
  "attempts ep keyword provider [] = (JNull, [])"
| "attempts ep keyword provider (attempt # rest) =
     (case provider attempt of
        Response status data \<Rightarrow>
          if status = 200 then (data, [Post ep keyword])
          else if status = 429 then
            after_events [Post ep keyword, Sleep (RETRY_DELAY_BASE * 2 ^ attempt)]
              (attempts ep keyword provider rest)
          else (JNull, [Post ep keyword, Stderr (ApiError ep keyword status)])
      | TimeoutError \<Rightarrow>
          if attempt < MAX_RETRIES - 1 then
            after_events [Post ep keyword, Sleep (RETRY_DELAY_BASE * 2 ^ attempt)]
              (attempts ep keyword provider rest)
          else (JNull, [Post ep keyword, Stderr (TimeoutMessage ep keyword)])
      | ClientError \<Rightarrow>
          if attempt < MAX_RETRIES - 1 then
            after_events [Post ep keyword, Sleep (RETRY_DELAY_BASE * 2 ^ attempt)]
              (attempts ep keyword provider rest)
          else (JNull, [Post ep keyword, Stderr (ConnectionError ep keyword)]))"

text \<open>\<^verbatim>\<open>async with semaphore:\<close> around the loop.\<close>

definition fetch :: "endpoint \<Rightarrow> string \<Rightarrow> (nat \<Rightarrow> attempt) \<Rightarrow> json \<times> event list" where
  "fetch ep keyword provider =
     (case attempts ep keyword provider [0..<MAX_RETRIES] of
        (data, t) \<Rightarrow> (data, Acquire # t @ [Release]))"

text \<open>
  The two fetch functions return the pair \<^verbatim>\<open>(keyword, data)\<close>; \<^verbatim>\<open>None\<close> is \<open>JNull\<close>.
  Of their parameters the keyword stays; the session and the authorisation header are the
  provider's side of the request, the semaphore shows as the two events around the loop,
  and \<^verbatim>\<open>fetch_serp_data\<close> never reads its \<^verbatim>\<open>stats\<close>.
\<close>

definition fetch_serp_data :: "string \<Rightarrow> (nat \<Rightarrow> attempt) \<Rightarrow> (string \<times> json) \<times> event list" where
  "fetch_serp_data keyword provider =
     (case fetch Organic keyword provider of (data, t) \<Rightarrow> ((keyword, data), t))"

definition fetch_ai_mode_data :: "string \<Rightarrow> (nat \<Rightarrow> attempt) \<Rightarrow> (string \<times> json) \<times> event list" where
  "fetch_ai_mode_data keyword provider =
     (case fetch AiMode keyword provider of (data, t) \<Rightarrow> ((keyword, data), t))"

text \<open>The delays slept and the requests issued, read off a trace.\<close>

fun delays :: "event list \<Rightarrow> real list" where
  "delays [] = []"
| "delays (Sleep d # es) = d # delays es"
| "delays (e # es) = delays es"

fun posts :: "endpoint \<Rightarrow> event list \<Rightarrow> nat" where
  "posts ep [] = 0"
| "posts ep (Post ep' k # es) = (if ep' = ep then Suc (posts ep es) else posts ep es)"
| "posts ep (e # es) = posts ep es"

section \<open>The per-keyword orchestrator\<close>

record ProcessingStats =
  total :: int
  completed :: int
  failed :: int
  ai_overview_rows :: int
  organic_rows :: int
  ai_mode_rows :: int

text \<open>
  \<^verbatim>\<open>process_single_keyword\<close> updates the shared \<^verbatim>\<open>stats\<close> object in place and returns
  the rows. The model returns three things: the rows or the exception that leaves the
  function, the statistics as this call leaves them (also when it raises: the updates made
  before the exception stay), and the events. \<open>serp\<close> and \<open>ai_mode\<close> are the
  provider's answers to the attempts of the first and of the second fetch.
\<close>

definition process_single_keyword ::
  "string \<Rightarrow> (nat \<Rightarrow> attempt) \<Rightarrow> (nat \<Rightarrow> attempt) \<Rightarrow> ProcessingStats
     \<Rightarrow> (py_exn + row list) \<times> ProcessingStats \<times> event list" where
  "process_single_keyword keyword serp ai_mode stats =
     (case fetch_serp_data keyword serp of
        ((_, serp_response), t1) \<Rightarrow>
          if truthy serp_response then
            (case extract_ai_overview_rows serp_response keyword of
               Inl e \<Rightarrow> (Inl e, stats, t1)
             | Inr rows_ai_overview \<Rightarrow>
                 (case extract_organic_rows serp_response keyword of
                    Inl e \<Rightarrow> (Inl e, stats, t1)
                  | Inr rows_organic \<Rightarrow>
                      (let rows = rows_ai_overview @ rows_organic;
                           stats1 = stats
                             \<lparr>ai_overview_rows :=
                                ai_overview_rows stats + int (length rows_ai_overview),
                              organic_rows :=
                                organic_rows stats + int (length rows_organic)\<rparr>
                       in if LOAD_GOOGLE_AI_MODE then
                            (case fetch_ai_mode_data keyword ai_mode of
                               ((_, ai_mode_response), t2) \<Rightarrow>
                                 if truthy ai_mode_response then
                                   (case extract_ai_mode_rows ai_mode_response keyword of
                                      Inl e \<Rightarrow> (Inl e, stats1, t1 @ t2)
                                    | Inr rows_ai_mode \<Rightarrow>
                                        (Inr (rows @ rows_ai_mode),
                                         stats1
                                           \<lparr>ai_mode_rows :=
                                              ai_mode_rows stats1 + int (length rows_ai_mode),
                                            completed := completed stats1 + 1\<rparr>,
                                         t1 @ t2))
                                 else
                                   (Inr rows,
                                    stats1\<lparr>completed := completed stats1 + 1\<rparr>,
                                    t1 @ t2))
                          else (Inr rows, stats1\<lparr>completed := completed stats1 + 1\<rparr>, t1))))
          else (Inr [], stats\<lparr>failed := failed stats + 1\<rparr>, t1))"

section \<open>The batch and the entry point\<close>

text \<open>
  \<^verbatim>\<open>str.strip()\<close> removes leading and trailing whitespace. A character is a code point
  below 256 here; these are the ones for which \<^verbatim>\<open>str.isspace()\<close> holds.
\<close>

definition is_space :: "char \<Rightarrow> bool" where
  "is_space c = ((of_char c :: nat) \<in> set [9, 10, 11, 12, 13, 28, 29, 30, 31, 32, 133, 160])"

definition strip :: "string \<Rightarrow> string" where
  "strip s = rev (dropWhile is_space (rev (dropWhile is_space s)))"

text \<open>
  The keywords file is \<open>None\<close> when the path does not exist and otherwise the list of its
  lines.
\<close>

definition load_keywords :: "string list option \<Rightarrow> string list \<times> event list" where
  "load_keywords file =
     (case file of
        None \<Rightarrow> ([], [Stderr KeywordsFileNotFound])
      | Some lines \<Rightarrow> (filter (\<lambda>kw. kw \<noteq> []) (map strip lines), []))"

text \<open>
  The batch. The source starts one \<^verbatim>\<open>process_single_keyword\<close> per keyword and awaits them
  with \<^verbatim>\<open>asyncio.as_completed\<close>, extending \<^verbatim>\<open>all_rows\<close> as each one finishes; an
  exception of one of them leaves \<^verbatim>\<open>process_keywords_async\<close> at that \<^verbatim>\<open>await\<close>. The
  model runs the keywords one after the other in the order of the list, so it describes
  the rows and counters of the schedule in which they finish in that order, and says
  nothing about how the requests of different keywords interleave. The provider's answers
  are indexed by the position of the keyword in the list.
\<close>

fun process_each ::
  "(nat \<times> string) list \<Rightarrow> (nat \<Rightarrow> nat \<Rightarrow> attempt) \<Rightarrow> (nat \<Rightarrow> nat \<Rightarrow> attempt) \<Rightarrow> ProcessingStats
     \<Rightarrow> (py_exn + row list) \<times> ProcessingStats \<times> event list" where
  "process_each [] serp ai_mode stats = (Inr [], stats, [])"
| "process_each ((i, kw) # rest) serp ai_mode stats =
     (case process_single_keyword kw (serp i) (ai_mode i) stats of
        (Inl e, stats', t) \<Rightarrow> (Inl e, stats', t)
      | (Inr keyword_rows, stats', t) \<Rightarrow>
          (case process_each rest serp ai_mode stats' of
             (Inl e, stats'', t') \<Rightarrow> (Inl e, stats'', t @ t')
           | (Inr all_rows, stats'', t') \<Rightarrow> (Inr (keyword_rows @ all_rows), stats'', t @ t')))"

definition process_keywords_async ::
  "string list \<Rightarrow> (nat \<Rightarrow> nat \<Rightarrow> attempt) \<Rightarrow> (nat \<Rightarrow> nat \<Rightarrow> attempt)
     \<Rightarrow> (py_exn + row list) \<times> ProcessingStats \<times> event list" where
  "process_keywords_async keywords serp ai_mode =
     process_each (zip [0..<length keywords] keywords) serp ai_mode
       \<lparr>total = int (length keywords), completed = 0, failed = 0,
        ai_overview_rows = 0, organic_rows = 0, ai_mode_rows = 0\<rparr>"

text \<open>
  \<^verbatim>\<open>main\<close> returns the exit code, or raises what the batch raises. What it prints to
  standard output, the clock and the failures of the file system are left out.
\<close>

definition main ::
  "string list option \<Rightarrow> (nat \<Rightarrow> nat \<Rightarrow> attempt) \<Rightarrow> (nat \<Rightarrow> nat \<Rightarrow> attempt)
     \<Rightarrow> (py_exn + int) \<times> event list" where
  "main file serp ai_mode =
     (case load_keywords file of
        (keywords, t0) \<Rightarrow>
          if keywords = [] then (Inr 1, t0 @ [Stderr NoKeywordsFound])
          else
            (case process_keywords_async keywords serp ai_mode of
               (Inl e, stats, t) \<Rightarrow> (Inl e, t0 @ t)
             | (Inr all_rows, stats, t) \<Rightarrow>
                 (Inr 0, t0 @ t @ [WriteCsv all_rows, WriteJson all_rows])))"

section \<open>Vocabulary of the statements\<close>

text \<open>
  An attempt is retried when its branch ends in \<^verbatim>\<open>continue\<close>: a 429 always, a timeout or a
  client error unless it is the last attempt.
\<close>

fun retried :: "attempt \<Rightarrow> nat \<Rightarrow> bool" where
  "retried (Response status data) attempt = (status = 429)"
| "retried TimeoutError attempt = (attempt < MAX_RETRIES - 1)"
| "retried ClientError attempt = (attempt < MAX_RETRIES - 1)"

text \<open>An attempt fails when it does not end in a response with status 200.\<close>

fun attempt_fails :: "attempt \<Rightarrow> bool" where
  "attempt_fails (Response status data) = (status \<noteq> 200)"
| "attempt_fails TimeoutError = True"
| "attempt_fails ClientError = True"

text \<open>
  The events of \<open>n\<close> retried attempts in a row, the first of them attempt \<open>j\<close>: each is
  a request followed by a sleep of \<^verbatim>\<open>RETRY_DELAY_BASE * (2 ** attempt)\<close> seconds.
\<close>

definition backoff :: "endpoint \<Rightarrow> string \<Rightarrow> nat \<Rightarrow> nat \<Rightarrow> event list" where
  "backoff ep keyword j n =
     concat (map (\<lambda>i. [Post ep keyword, Sleep (RETRY_DELAY_BASE * 2 ^ i)]) [j..<j + n])"


section \<open>Basic facts\<close>

lemma dict_get_Nil: "dict_get [] k = JNull"
  by (simp add: dict_get_def)

lemma dict_get_Cons: "dict_get ((k', v) # kvs) k = (if k' = k then v else dict_get kvs k)"
  by (simp add: dict_get_def)

lemma py_or_truthy: "truthy x \<Longrightarrow> py_or x y = x"
  by (simp add: py_or_def)

lemma py_or_falsy: "\<not> truthy x \<Longrightarrow> py_or x y = y"
  by (simp add: py_or_def)

lemmas walk_simps = for_each_item_def for_each_task_def for_each_result_def for_each_def
  Let_def py_or_truthy py_or_falsy


lemma after_events_pair: "after_events es (a, t) = (a, es @ t)"
  by (simp add: after_events_def)

lemma after_events_twice: "after_events es (after_events es' r) = after_events (es @ es') r"
  by (simp add: after_events_def)

lemma after_events_Nil: "after_events [] r = r"
  by (simp add: after_events_def)

lemma delays_append: "delays (xs @ ys) = delays xs @ delays ys"
  by (induction xs rule: delays.induct) simp_all

lemma posts_append: "posts ep (xs @ ys) = posts ep xs + posts ep ys"
  by (induction ep xs rule: posts.induct) simp_all

lemma backoff_0: "backoff ep kw j 0 = []"
  by (simp add: backoff_def)

lemma backoff_Suc:
  "backoff ep kw j (Suc n) =
     [Post ep kw, Sleep (RETRY_DELAY_BASE * 2 ^ j)] @ backoff ep kw (Suc j) n"
  by (simp add: backoff_def upt_conv_Cons)

lemma delays_backoff:
  "delays (backoff ep kw j n) = map (\<lambda>i. RETRY_DELAY_BASE * 2 ^ i) [j..<j + n]"
  by (induction n arbitrary: j) (simp_all add: backoff_0 backoff_Suc upt_conv_Cons)

lemma posts_backoff: "posts ep (backoff ep kw j n) = n"
  by (induction n arbitrary: j) (simp_all add: backoff_0 backoff_Suc)

subsection \<open>The retry loop\<close>

text \<open>
  A run of \<open>n\<close> retried attempts leaves the loop where it would be had it started at
  attempt \<open>j + n\<close>, with the requests and sleeps of those attempts in front.
\<close>

lemma attempts_retried:
  "\<forall>i<n. retried (provider (j + i)) (j + i) \<Longrightarrow> j + n \<le> m \<Longrightarrow>
   attempts ep kw provider [j..<m] =
     after_events (backoff ep kw j n) (attempts ep kw provider [j + n..<m])"
proof (induction n arbitrary: j)
  case 0
  then show ?case by (simp add: backoff_0 after_events_Nil)
next
  case (Suc n)
  from Suc.prems have first: "retried (provider j) j" by force
  from Suc.prems have rest: "\<forall>i<n. retried (provider (Suc j + i)) (Suc j + i)" by force
  from Suc.prems have bound: "Suc j + n \<le> m" and lt: "j < m" by simp_all
  have step: "attempts ep kw provider [j..<m] =
      after_events [Post ep kw, Sleep (RETRY_DELAY_BASE * 2 ^ j)]
        (attempts ep kw provider [Suc j..<m])"
    using first lt by (cases "provider j") (simp_all add: upt_conv_Cons)
  show ?case
    using Suc.IH [OF rest bound] by (simp add: step backoff_Suc after_events_twice)
qed

lemma attempts_all_fail:
  "\<forall>i\<in>set xs. attempt_fails (provider i) \<Longrightarrow> fst (attempts ep kw provider xs) = JNull"
  by (induction xs) (auto simp: after_events_def split: attempt.splits)

lemma posts_other_endpoint:
  "ep' \<noteq> ep \<Longrightarrow> posts ep' (snd (attempts ep kw provider xs)) = 0"
  by (induction xs) (auto simp: after_events_def split: attempt.splits)

lemma fetch_attempts:
  "fetch ep kw provider =
     (fst (attempts ep kw provider [0..<MAX_RETRIES]),
      Acquire # snd (attempts ep kw provider [0..<MAX_RETRIES]) @ [Release])"
  by (simp add: fetch_def split_beta)

lemma posts_fetch_other:
  "ep' \<noteq> ep \<Longrightarrow> posts ep' (snd (fetch ep kw provider)) = 0"
  by (simp add: fetch_attempts posts_append posts_other_endpoint)

lemma fetch_serp_data_fetch:
  "fetch_serp_data kw provider =
     ((kw, fst (fetch Organic kw provider)), snd (fetch Organic kw provider))"
  by (simp add: fetch_serp_data_def split_beta)

lemma fetch_ai_mode_data_fetch:
  "fetch_ai_mode_data kw provider =
     ((kw, fst (fetch AiMode kw provider)), snd (fetch AiMode kw provider))"
  by (simp add: fetch_ai_mode_data_def split_beta)

lemma fetch_retried_then:
  assumes "\<forall>i<n. retried (provider i) i" and "n < MAX_RETRIES"
    and "attempts ep kw provider [n..<MAX_RETRIES] = (data, t)"
  shows "fetch ep kw provider = (data, Acquire # backoff ep kw 0 n @ t @ [Release])"
proof -
  have "attempts ep kw provider [0..<MAX_RETRIES] =
      after_events (backoff ep kw 0 n) (attempts ep kw provider [0 + n..<MAX_RETRIES])"
    using assms(1,2) by (intro attempts_retried) simp_all
  then show ?thesis
    using assms(3) by (simp add: fetch_attempts after_events_pair)
qed

text \<open>
  The semaphore is taken before the first request of a fetch and given back after its
  last event: one permit covers all the attempts of the call.
\<close>

lemma fetch_holds_permit:
  "\<exists>t. snd (fetch ep kw provider) = Acquire # t @ [Release] \<and>
       Acquire \<notin> set t \<and> Release \<notin> set t"
proof -
  have "Acquire \<notin> set (snd (attempts ep kw provider xs)) \<and>
        Release \<notin> set (snd (attempts ep kw provider xs))" for xs
    by (induction xs) (auto simp: after_events_def split: attempt.splits)
  then show ?thesis
    by (simp add: fetch_attempts)
qed

subsection \<open>The orchestrator\<close>

lemma process_primary_falsy:
  "\<not> truthy (fst (fetch Organic kw serp)) \<Longrightarrow>
   process_single_keyword kw serp ai stats =
     (Inr [], stats\<lparr>failed := failed stats + 1\<rparr>, snd (fetch Organic kw serp))"
  by (simp add: process_single_keyword_def fetch_serp_data_fetch)

text \<open>An exception leaves both \<^verbatim>\<open>completed\<close> and \<^verbatim>\<open>failed\<close> as they were.\<close>

lemma process_raise_counts_nothing:
  assumes "process_single_keyword keyword serp ai_mode stats = (Inl e, stats', t)"
  shows "completed stats' = completed stats \<and> failed stats' = failed stats"
  using assms
  by (auto simp: process_single_keyword_def Let_def split: prod.splits sum.splits if_splits)

section \<open>The claims\<close>

text \<open>
  Claim C1. When every attempt of the primary (organic and AI Overview) fetch fails,
  \<^verbatim>\<open>process_single_keyword\<close> adds exactly 1 to \<^verbatim>\<open>failed\<close> and changes no other counter,
  returns the empty row list, and its events are those of the primary fetch alone, among
  which there is no request to the AI Mode endpoint.
\<close>

theorem primary_failure_counts_failed:
  assumes "\<forall>i<MAX_RETRIES. attempt_fails (serp i)"
  shows "process_single_keyword keyword serp ai_mode stats =
           (Inr [], stats\<lparr>failed := failed stats + 1\<rparr>, snd (fetch_serp_data keyword serp)) \<and>
         posts AiMode (snd (fetch_serp_data keyword serp)) = 0"
proof -
  have "\<forall>i\<in>set [0..<MAX_RETRIES]. attempt_fails (serp i)"
    using assms by simp
  then have "fst (attempts Organic keyword serp [0..<MAX_RETRIES]) = JNull"
    by (rule attempts_all_fail)
  then have "\<not> truthy (fst (fetch Organic keyword serp))"
    by (simp add: fetch_attempts)
  then show ?thesis
    by (simp add: process_primary_falsy fetch_serp_data_fetch posts_fetch_other)
qed

theorem primary_failure_counts_failed_witness:
  "attempt_fails TimeoutError \<and> attempt_fails (Response 429 JNull) \<and>
   process_single_keyword ''seo''
       (\<lambda>i. if i = 0 then TimeoutError else Response 429 JNull) (\<lambda>i. Response 200 JNull)
       \<lparr>total = 1, completed = 0, failed = 0,
        ai_overview_rows = 0, organic_rows = 0, ai_mode_rows = 0\<rparr> =
     (Inr [],
      \<lparr>total = 1, completed = 0, failed = 1,
       ai_overview_rows = 0, organic_rows = 0, ai_mode_rows = 0\<rparr>,
      [Acquire, Post Organic ''seo'', Sleep 1, Post Organic ''seo'', Sleep 2,
       Post Organic ''seo'', Sleep 4, Release])"
  using primary_failure_counts_failed
    [of "\<lambda>i. if i = 0 then TimeoutError else Response 429 JNull" "''seo''"
        "\<lambda>i. Response 200 JNull"
        "\<lparr>total = 1, completed = 0, failed = 0,
          ai_overview_rows = 0, organic_rows = 0, ai_mode_rows = 0\<rparr>"]
  by (simp add: fetch_serp_data_def fetch_def MAX_RETRIES_def RETRY_DELAY_BASE_def
      upt_conv_Cons after_events_def)

text \<open>
  Claim C2, as amended. Whenever \<^verbatim>\<open>process_single_keyword\<close> returns, it has added exactly
  1 to exactly one of \<^verbatim>\<open>completed\<close> and \<^verbatim>\<open>failed\<close> and left the other one unchanged, and
  when it is \<^verbatim>\<open>failed\<close> the returned row list is empty. (When an exception leaves the
  function instead, neither counter has changed: \<open>process_raise_counts_nothing\<close>.)
\<close>

theorem returning_keyword_counts_once:
  assumes "process_single_keyword keyword serp ai_mode stats = (Inr rows, stats', t)"
  shows "(completed stats' = completed stats + 1 \<and> failed stats' = failed stats) \<or>
         (completed stats' = completed stats \<and> failed stats' = failed stats + 1 \<and> rows = [])"
  using assms
  by (auto simp: process_single_keyword_def Let_def split: prod.splits sum.splits if_splits)

theorem returning_keyword_counts_once_witness:
  "process_single_keyword ''seo'' (\<lambda>i. Response 500 JNull) (\<lambda>i. TimeoutError)
       \<lparr>total = 1, completed = 0, failed = 0,
        ai_overview_rows = 0, organic_rows = 0, ai_mode_rows = 0\<rparr> =
     (Inr [],
      \<lparr>total = 1, completed = 0, failed = 1,
       ai_overview_rows = 0, organic_rows = 0, ai_mode_rows = 0\<rparr>,
      [Acquire, Post Organic ''seo'', Stderr (ApiError Organic ''seo'' 500), Release]) \<and>
   ((completed \<lparr>total = 1, completed = 0, failed = 1,
       ai_overview_rows = 0, organic_rows = 0, ai_mode_rows = 0\<rparr> = (0::int) + 1 \<and>
     failed \<lparr>total = 1, completed = 0, failed = 1,
       ai_overview_rows = 0, organic_rows = 0, ai_mode_rows = 0\<rparr> = (0::int)) \<or>
    (completed \<lparr>total = 1, completed = 0, failed = 1,
       ai_overview_rows = 0, organic_rows = 0, ai_mode_rows = 0\<rparr> = (0::int) \<and>
     failed \<lparr>total = 1, completed = 0, failed = 1,
       ai_overview_rows = 0, organic_rows = 0, ai_mode_rows = 0\<rparr> = (0::int) + 1 \<and>
     ([]::row list) = []))"
proof -
  have run: "process_single_keyword ''seo'' (\<lambda>i. Response 500 JNull) (\<lambda>i. TimeoutError)
       \<lparr>total = 1, completed = 0, failed = 0,
        ai_overview_rows = 0, organic_rows = 0, ai_mode_rows = 0\<rparr> =
     (Inr [],
      \<lparr>total = 1, completed = 0, failed = 1,
       ai_overview_rows = 0, organic_rows = 0, ai_mode_rows = 0\<rparr>,
      [Acquire, Post Organic ''seo'', Stderr (ApiError Organic ''seo'' 500), Release])"
    by (simp add: process_single_keyword_def fetch_serp_data_def fetch_def MAX_RETRIES_def
        upt_conv_Cons)
  show ?thesis
    using run returning_keyword_counts_once [OF run] by simp
qed

text \<open>
  Claim C2 as stated fails: a response with status 200 whose document is
  \<^verbatim>\<open>{"tasks": [1]}\<close> tests true, \<^verbatim>\<open>_extract_ai_overview_rows\<close> calls \<^verbatim>\<open>.get\<close> on the
  integer, and the \<^verbatim>\<open>AttributeError\<close> leaves \<^verbatim>\<open>process_single_keyword\<close> before either
  counter is touched.
\<close>

theorem malformed_document_counts_nothing:
  "process_single_keyword ''seo''
       (\<lambda>i. Response 200 (JObj [(''tasks'', JArr [JNum 1])])) (\<lambda>i. TimeoutError)
       \<lparr>total = 1, completed = 0, failed = 0,
        ai_overview_rows = 0, organic_rows = 0, ai_mode_rows = 0\<rparr> =
     (Inl AttributeError,
      \<lparr>total = 1, completed = 0, failed = 0,
       ai_overview_rows = 0, organic_rows = 0, ai_mode_rows = 0\<rparr>,
      [Acquire, Post Organic ''seo'', Release])"
  by (simp add: process_single_keyword_def fetch_serp_data_def fetch_def MAX_RETRIES_def
      upt_conv_Cons extract_ai_overview_rows_def walk_simps dict_get_Cons)

text \<open>
  Claim C3. When the first \<open>k < MAX_RETRIES\<close> attempts of the primary fetch are answered
  with status 429 and the next one with status 200, \<^verbatim>\<open>fetch_serp_data\<close> returns the keyword
  with the parsed body of that response, and the delays it has slept are
  \<^verbatim>\<open>RETRY_DELAY_BASE * 2 ** i\<close> for \<open>i = 0, \<dots>, k - 1\<close>, in this order.
\<close>

theorem rate_limited_then_ok_backoff:
  assumes "k < MAX_RETRIES"
    and "\<forall>i<k. \<exists>body. provider i = Response 429 body"
    and "provider k = Response 200 data"
  shows "fst (fetch_serp_data keyword provider) = (keyword, data) \<and>
         delays (snd (fetch_serp_data keyword provider)) =
           map (\<lambda>i. RETRY_DELAY_BASE * 2 ^ i) [0..<k]"
proof -
  have r: "\<forall>i<k. retried (provider i) i"
    using assms(2) by auto
  have last: "attempts Organic keyword provider [k..<MAX_RETRIES] =
      (data, [Post Organic keyword])"
    using assms(1,3) by (simp add: upt_conv_Cons)
  have "fetch Organic keyword provider =
      (data, Acquire # backoff Organic keyword 0 k @ [Post Organic keyword] @ [Release])"
    by (rule fetch_retried_then [OF r assms(1) last])
  then show ?thesis
    by (simp add: fetch_serp_data_fetch delays_append delays_backoff)
qed

theorem rate_limited_then_ok_backoff_witness:
  "(2::nat) < MAX_RETRIES \<and>
   fst (fetch_serp_data ''seo''
          (\<lambda>i. if i < 2 then Response 429 JNull else Response 200 (JObj [(''tasks'', JArr [])]))) =
     (''seo'', JObj [(''tasks'', JArr [])]) \<and>
   delays (snd (fetch_serp_data ''seo''
          (\<lambda>i. if i < 2 then Response 429 JNull else Response 200 (JObj [(''tasks'', JArr [])])))) =
     [1, 2]"
  using rate_limited_then_ok_backoff
    [of 2 "\<lambda>i. if i < 2 then Response 429 JNull else Response 200 (JObj [(''tasks'', JArr [])])"
        "JObj [(''tasks'', JArr [])]" "''seo''"]
  by (simp add: MAX_RETRIES_def RETRY_DELAY_BASE_def upt_conv_Cons)

text \<open>
  Claim C4 does not hold of the code. With every attempt answered by status 429 the fetch
  sleeps after each of its three requests, the last time for
  \<^verbatim>\<open>RETRY_DELAY_BASE * 2 ** 2\<close> seconds although no attempt follows; with every attempt
  timing out, or failing with a client error, it sleeps twice and returns right after the
  third request. The number of requests and the result are the same.
\<close>

theorem rate_limit_sleeps_after_last_attempt:
  "fetch_serp_data keyword (\<lambda>attempt. Response 429 body) =
     ((keyword, JNull),
      [Acquire, Post Organic keyword, Sleep 1, Post Organic keyword, Sleep 2,
       Post Organic keyword, Sleep 4, Release]) \<and>
   fetch_serp_data keyword (\<lambda>attempt. TimeoutError) =
     ((keyword, JNull),
      [Acquire, Post Organic keyword, Sleep 1, Post Organic keyword, Sleep 2,
       Post Organic keyword, Stderr (TimeoutMessage Organic keyword), Release]) \<and>
   fetch_serp_data keyword (\<lambda>attempt. ClientError) =
     ((keyword, JNull),
      [Acquire, Post Organic keyword, Sleep 1, Post Organic keyword, Sleep 2,
       Post Organic keyword, Stderr (ConnectionError Organic keyword), Release])"
  by (simp add: fetch_serp_data_def fetch_def MAX_RETRIES_def RETRY_DELAY_BASE_def
      upt_conv_Cons after_events_def)

text \<open>
  Claim C5, as amended. When the primary fetch returns a response that tests true and the
  extraction of its AI Overview and organic rows raises nothing, then: if the AI Mode
  fetch returns \<^verbatim>\<open>None\<close> (or another value that tests false), the call returns exactly the
  AI Overview rows followed by the organic rows; if the AI Mode response tests true and
  its rows are extracted, those rows follow; in both cases \<^verbatim>\<open>completed\<close> has grown by
  exactly 1 and \<^verbatim>\<open>failed\<close> is unchanged.
\<close>

theorem completed_once_after_primary_rows:
  assumes "fst (fetch_serp_data keyword serp) = (keyword, serp_response)"
    and "truthy serp_response"
    and "extract_ai_overview_rows serp_response keyword = Inr rows_ai_overview"
    and "extract_organic_rows serp_response keyword = Inr rows_organic"
    and "fst (fetch_ai_mode_data keyword ai_mode) = (keyword, ai_mode_response)"
    and "process_single_keyword keyword serp ai_mode stats = (result, stats', t)"
  shows "(\<not> truthy ai_mode_response \<longrightarrow>
            result = Inr (rows_ai_overview @ rows_organic) \<and>
            completed stats' = completed stats + 1 \<and> failed stats' = failed stats) \<and>
         (truthy ai_mode_response \<longrightarrow>
            (\<forall>rows_ai_mode.
               extract_ai_mode_rows ai_mode_response keyword = Inr rows_ai_mode \<longrightarrow>
               result = Inr (rows_ai_overview @ rows_organic @ rows_ai_mode) \<and>
               completed stats' = completed stats + 1 \<and> failed stats' = failed stats))"
  using assms
  by (auto simp: process_single_keyword_def Let_def LOAD_GOOGLE_AI_MODE_def
      split: prod.splits sum.splits if_splits)

theorem completed_once_after_primary_rows_witness:
  "process_single_keyword ''seo''
       (\<lambda>i. Response 200 (JObj [(''tasks'', JArr [JObj [(''result'', JArr [JObj
          [(''keyword'', JStr ''seo''),
           (''items'', JArr [JObj [(''type'', JStr ''organic''), (''url'', JStr ''u'')]])]])]])]))
       (\<lambda>i. TimeoutError)
       \<lparr>total = 1, completed = 0, failed = 0,
        ai_overview_rows = 0, organic_rows = 0, ai_mode_rows = 0\<rparr> =
     (Inr [[(''result_type'', JStr ''organic''), (''keyword'', JStr ''seo''),
            (''page'', JNull), (''rank_group'', JNull), (''rank_absolute'', JNull),
            (''position'', JNull), (''domain'', JNull), (''url'', JStr ''u''),
            (''title'', JNull), (''description'', JNull), (''extended_snippet'', JNull),
            (''breadcrumb'', JNull), (''website_name'', JNull)]],
      \<lparr>total = 1, completed = 1, failed = 0,
       ai_overview_rows = 0, organic_rows = 1, ai_mode_rows = 0\<rparr>,
      [Acquire, Post Organic ''seo'', Release,
       Acquire, Post AiMode ''seo'', Sleep 1, Post AiMode ''seo'', Sleep 2,
       Post AiMode ''seo'', Stderr (TimeoutMessage AiMode ''seo''), Release]) \<and>
   completed \<lparr>total = 1, completed = 1, failed = 0,
       ai_overview_rows = 0, organic_rows = 1, ai_mode_rows = 0\<rparr> = (0::int) + 1"
proof -
  let ?doc = "JObj [(''tasks'', JArr [JObj [(''result'', JArr [JObj
          [(''keyword'', JStr ''seo''),
           (''items'', JArr [JObj [(''type'', JStr ''organic''), (''url'', JStr ''u'')]])]])]])]"
  let ?row = "[(''result_type'', JStr ''organic''), (''keyword'', JStr ''seo''),
            (''page'', JNull), (''rank_group'', JNull), (''rank_absolute'', JNull),
            (''position'', JNull), (''domain'', JNull), (''url'', JStr ''u''),
            (''title'', JNull), (''description'', JNull), (''extended_snippet'', JNull),
            (''breadcrumb'', JNull), (''website_name'', JNull)]"
  let ?stats = "\<lparr>total = 1, completed = 0, failed = 0,
        ai_overview_rows = 0, organic_rows = 0, ai_mode_rows = 0\<rparr>"
  have primary: "fst (fetch_serp_data ''seo'' (\<lambda>i. Response 200 ?doc)) = (''seo'', ?doc)"
    by (simp add: fetch_serp_data_def fetch_def MAX_RETRIES_def upt_conv_Cons)
  have true: "truthy ?doc"
    by simp
  have ao: "extract_ai_overview_rows ?doc ''seo'' = Inr []"
    by (simp add: extract_ai_overview_rows_def walk_simps dict_get_Cons dict_get_Nil)
  have org: "extract_organic_rows ?doc ''seo'' = Inr [?row]"
    by (simp add: extract_organic_rows_def walk_simps dict_get_Cons dict_get_Nil)
  have secondary: "fst (fetch_ai_mode_data ''seo'' (\<lambda>i. TimeoutError)) = (''seo'', JNull)"
    by (simp add: fetch_ai_mode_data_def fetch_def MAX_RETRIES_def upt_conv_Cons
        after_events_def)
  have run: "process_single_keyword ''seo'' (\<lambda>i. Response 200 ?doc) (\<lambda>i. TimeoutError) ?stats =
     (Inr [?row],
      \<lparr>total = 1, completed = 1, failed = 0,
       ai_overview_rows = 0, organic_rows = 1, ai_mode_rows = 0\<rparr>,
      [Acquire, Post Organic ''seo'', Release,
       Acquire, Post AiMode ''seo'', Sleep 1, Post AiMode ''seo'', Sleep 2,
       Post AiMode ''seo'', Stderr (TimeoutMessage AiMode ''seo''), Release])"
    by (simp add: process_single_keyword_def fetch_serp_data_def fetch_ai_mode_data_def
        fetch_def MAX_RETRIES_def RETRY_DELAY_BASE_def LOAD_GOOGLE_AI_MODE_def upt_conv_Cons
        after_events_def Let_def ao org)
  note inst = completed_once_after_primary_rows [OF primary true ao org secondary run]
  have once: "completed \<lparr>total = 1, completed = 1, failed = 0,
       ai_overview_rows = 0, organic_rows = 1, ai_mode_rows = 0\<rparr> = (0::int) + 1"
    using inst by simp
  show ?thesis
    by (intro conjI run once)
qed

text \<open>
  Claim C5 as stated fails in two ways. A primary fetch that succeeds with the empty
  object as its body is counted as failed, not completed. And the outcome of the AI Mode
  fetch does matter: when its document is \<^verbatim>\<open>{"tasks": [1]}\<close> the extraction raises
  \<^verbatim>\<open>AttributeError\<close> before \<^verbatim>\<open>completed\<close> is incremented.
\<close>

theorem primary_success_not_completed:
  "fetch_serp_data ''seo'' (\<lambda>i. Response 200 (JObj [])) =
     ((''seo'', JObj []), [Acquire, Post Organic ''seo'', Release]) \<and>
   process_single_keyword ''seo'' (\<lambda>i. Response 200 (JObj [])) (\<lambda>i. Response 200 JNull)
       \<lparr>total = 1, completed = 0, failed = 0,
        ai_overview_rows = 0, organic_rows = 0, ai_mode_rows = 0\<rparr> =
     (Inr [],
      \<lparr>total = 1, completed = 0, failed = 1,
       ai_overview_rows = 0, organic_rows = 0, ai_mode_rows = 0\<rparr>,
      [Acquire, Post Organic ''seo'', Release]) \<and>
   process_single_keyword ''seo''
       (\<lambda>i. Response 200 (JObj [(''tasks'', JArr [])]))
       (\<lambda>i. Response 200 (JObj [(''tasks'', JArr [JNum 1])]))
       \<lparr>total = 1, completed = 0, failed = 0,
        ai_overview_rows = 0, organic_rows = 0, ai_mode_rows = 0\<rparr> =
     (Inl AttributeError,
      \<lparr>total = 1, completed = 0, failed = 0,
       ai_overview_rows = 0, organic_rows = 0, ai_mode_rows = 0\<rparr>,
      [Acquire, Post Organic ''seo'', Release, Acquire, Post AiMode ''seo'', Release])"
  by (simp add: process_single_keyword_def fetch_serp_data_def fetch_ai_mode_data_def
      fetch_def MAX_RETRIES_def LOAD_GOOGLE_AI_MODE_def upt_conv_Cons
      extract_ai_overview_rows_def extract_organic_rows_def extract_ai_mode_rows_def
      walk_simps dict_get_Cons)

text \<open>
  Claim C6. When the attempts before attempt \<open>n\<close> were all retried and attempt \<open>n\<close> is
  answered with a status other than 200 and 429, \<^verbatim>\<open>fetch_serp_data\<close> returns \<^verbatim>\<open>None\<close>
  for the keyword, and after the request of attempt \<open>n\<close> it only reports the error and
  gives the semaphore back: no sleep and no further request, whatever \<open>n < MAX_RETRIES\<close>.
\<close>

theorem other_status_fails_without_retry:
  assumes "n < MAX_RETRIES"
    and "\<forall>i<n. retried (provider i) i"
    and "provider n = Response status body"
    and "status \<noteq> 200" and "status \<noteq> 429"
  shows "fetch_serp_data keyword provider =
           ((keyword, JNull),
            Acquire # backoff Organic keyword 0 n @
              [Post Organic keyword, Stderr (ApiError Organic keyword status), Release])"
proof -
  have last: "attempts Organic keyword provider [n..<MAX_RETRIES] =
      (JNull, [Post Organic keyword, Stderr (ApiError Organic keyword status)])"
    using assms(1,3,4,5) by (simp add: upt_conv_Cons)
  show ?thesis
    using fetch_retried_then [OF assms(2) assms(1) last] by (simp add: fetch_serp_data_fetch)
qed

theorem other_status_fails_without_retry_witness:
  "(1::nat) < MAX_RETRIES \<and>
   retried ((\<lambda>i. if i = 0 then Response 429 JNull else Response 503 JNull) 0) 0 \<and>
   fetch_serp_data ''seo'' (\<lambda>i. if i = 0 then Response 429 JNull else Response 503 JNull) =
     ((''seo'', JNull),
      [Acquire, Post Organic ''seo'', Sleep 1,
       Post Organic ''seo'', Stderr (ApiError Organic ''seo'' 503), Release])"
  using other_status_fails_without_retry
    [of 1 "\<lambda>i. if i = 0 then Response 429 JNull else Response 503 JNull" 503 JNull "''seo''"]
  by (simp add: MAX_RETRIES_def RETRY_DELAY_BASE_def backoff_def)



text \<open>
  Claim C8. When the keywords file is missing, or holds no line with a keyword, \<^verbatim>\<open>main\<close>
  returns 1 and has issued no request to either endpoint: all it has done is write to
  standard error. When there are keywords, \<^verbatim>\<open>main\<close> returns 0 if the batch completes, and
  otherwise the exception of the batch leaves \<^verbatim>\<open>main\<close>.
\<close>

theorem main_exit_code:
  "((file = None \<or> fst (load_keywords file) = []) \<longrightarrow>
      fst (main file serp ai_mode) = Inr 1 \<and>
      snd (main file serp ai_mode) = snd (load_keywords file) @ [Stderr NoKeywordsFound] \<and>
      posts Organic (snd (main file serp ai_mode)) = 0 \<and>
      posts AiMode (snd (main file serp ai_mode)) = 0) \<and>
   (fst (load_keywords file) \<noteq> [] \<longrightarrow>
      (case fst (process_keywords_async (fst (load_keywords file)) serp ai_mode) of
         Inr all_rows \<Rightarrow> fst (main file serp ai_mode) = Inr 0
       | Inl e \<Rightarrow> fst (main file serp ai_mode) = Inl e))"
proof (intro conjI impI)
  assume "file = None \<or> fst (load_keywords file) = []"
  then have empty: "fst (load_keywords file) = []"
    by (auto simp: load_keywords_def)
  then show "fst (main file serp ai_mode) = Inr 1"
    by (simp add: main_def split_beta)
  from empty show t: "snd (main file serp ai_mode) =
      snd (load_keywords file) @ [Stderr NoKeywordsFound]"
    by (simp add: main_def split_beta)
  show "posts Organic (snd (main file serp ai_mode)) = 0"
    unfolding t by (simp add: load_keywords_def posts_append split: option.splits)
  show "posts AiMode (snd (main file serp ai_mode)) = 0"
    unfolding t by (simp add: load_keywords_def posts_append split: option.splits)
next
  assume "fst (load_keywords file) \<noteq> []"
  then show "case fst (process_keywords_async (fst (load_keywords file)) serp ai_mode) of
         Inr all_rows \<Rightarrow> fst (main file serp ai_mode) = Inr 0
       | Inl e \<Rightarrow> fst (main file serp ai_mode) = Inl e"
    by (simp add: main_def split_beta split: sum.splits prod.splits)
qed

theorem main_exit_code_witness:
  "main None (\<lambda>i j. Response 200 JNull) (\<lambda>i j. Response 200 JNull) =
     (Inr 1, [Stderr KeywordsFileNotFound, Stderr NoKeywordsFound]) \<and>
   main (Some ['' \<newline>'', ''\<newline>''])
       (\<lambda>i j. Response 200 JNull) (\<lambda>i j. Response 200 JNull) =
     (Inr 1, [Stderr NoKeywordsFound]) \<and>
   load_keywords (Some [''seo\<newline>'', ''\<newline>'']) = ([''seo''], []) \<and>
   main (Some [''seo\<newline>'', ''\<newline>''])
       (\<lambda>i j. Response 200 (JObj [(''tasks'', JArr [])])) (\<lambda>i j. Response 500 JNull) =
     (Inr 0,
      [Acquire, Post Organic ''seo'', Release,
       Acquire, Post AiMode ''seo'', Stderr (ApiError AiMode ''seo'' 500), Release,
       WriteCsv [], WriteJson []])"
proof -
  have missing: "main None (\<lambda>i j. Response 200 JNull) (\<lambda>i j. Response 200 JNull) =
     (Inr 1, [Stderr KeywordsFileNotFound, Stderr NoKeywordsFound])"
    using main_exit_code [of None "\<lambda>i j. Response 200 JNull" "\<lambda>i j. Response 200 JNull"]
    by (simp add: load_keywords_def prod_eq_iff)
  have blank: "load_keywords (Some ['' \<newline>'', ''\<newline>'']) = ([], [])"
    by (simp add: load_keywords_def strip_def is_space_def)
  have empty: "main (Some ['' \<newline>'', ''\<newline>''])
       (\<lambda>i j. Response 200 JNull) (\<lambda>i j. Response 200 JNull) =
     (Inr 1, [Stderr NoKeywordsFound])"
    using main_exit_code [of "Some ['' \<newline>'', ''\<newline>'']"
        "\<lambda>i j. Response 200 JNull" "\<lambda>i j. Response 200 JNull"]
    by (simp add: blank prod_eq_iff)
  have loaded: "load_keywords (Some [''seo\<newline>'', ''\<newline>'']) = ([''seo''], [])"
    by (simp add: load_keywords_def strip_def is_space_def)
  have batch: "process_keywords_async [''seo'']
       (\<lambda>i j. Response 200 (JObj [(''tasks'', JArr [])])) (\<lambda>i j. Response 500 JNull) =
     (Inr [],
      \<lparr>total = 1, completed = 1, failed = 0,
       ai_overview_rows = 0, organic_rows = 0, ai_mode_rows = 0\<rparr>,
      [Acquire, Post Organic ''seo'', Release,
       Acquire, Post AiMode ''seo'', Stderr (ApiError AiMode ''seo'' 500), Release])"
    by (simp add: process_keywords_async_def process_single_keyword_def fetch_serp_data_def
        fetch_ai_mode_data_def fetch_def MAX_RETRIES_def LOAD_GOOGLE_AI_MODE_def upt_conv_Cons
        extract_ai_overview_rows_def extract_organic_rows_def walk_simps dict_get_Cons)
  have code: "fst (main (Some [''seo\<newline>'', ''\<newline>''])
       (\<lambda>i j. Response 200 (JObj [(''tasks'', JArr [])])) (\<lambda>i j. Response 500 JNull)) = Inr 0"
    using main_exit_code [of "Some [''seo\<newline>'', ''\<newline>'']"
        "\<lambda>i j. Response 200 (JObj [(''tasks'', JArr [])])" "\<lambda>i j. Response 500 JNull"]
    by (simp add: loaded batch)
  have trace: "snd (main (Some [''seo\<newline>'', ''\<newline>''])
       (\<lambda>i j. Response 200 (JObj [(''tasks'', JArr [])])) (\<lambda>i j. Response 500 JNull)) =
      [Acquire, Post Organic ''seo'', Release,
       Acquire, Post AiMode ''seo'', Stderr (ApiError AiMode ''seo'' 500), Release,
       WriteCsv [], WriteJson []]"
    by (simp add: main_def loaded batch)
  have run: "main (Some [''seo\<newline>'', ''\<newline>''])
       (\<lambda>i j. Response 200 (JObj [(''tasks'', JArr [])])) (\<lambda>i j. Response 500 JNull) =
     (Inr 0,
      [Acquire, Post Organic ''seo'', Release,
       Acquire, Post AiMode ''seo'', Stderr (ApiError AiMode ''seo'' 500), Release,
       WriteCsv [], WriteJson []])"
    using code trace by (simp add: prod_eq_iff)
  show ?thesis
    by (intro conjI missing empty loaded run)
qed

text \<open>
  Claim C10. When the primary fetch ends, after attempts that were all retried, with a
  response of status 200 whose parsed body tests false (\<^verbatim>\<open>{}\<close>, \<^verbatim>\<open>[]\<close>, \<^verbatim>\<open>null\<close>,
  \<^verbatim>\<open>0\<close>, \<^verbatim>\<open>""\<close>, \<^verbatim>\<open>false\<close>), \<^verbatim>\<open>fetch_serp_data\<close> returns that body, and yet
  \<^verbatim>\<open>process_single_keyword\<close> adds 1 to \<^verbatim>\<open>failed\<close>, leaves \<^verbatim>\<open>completed\<close> as it was,
  returns no rows and issues no request to the AI Mode endpoint.
\<close>

theorem falsy_body_counts_failed:
  assumes "k < MAX_RETRIES"
    and "\<forall>i<k. retried (serp i) i"
    and "serp k = Response 200 data"
    and "\<not> truthy data"
  shows "fst (fetch_serp_data keyword serp) = (keyword, data) \<and>
         process_single_keyword keyword serp ai_mode stats =
           (Inr [], stats\<lparr>failed := failed stats + 1\<rparr>, snd (fetch_serp_data keyword serp)) \<and>
         completed (stats\<lparr>failed := failed stats + 1\<rparr>) = completed stats \<and>
         posts AiMode (snd (fetch_serp_data keyword serp)) = 0"
proof -
  have last: "attempts Organic keyword serp [k..<MAX_RETRIES] = (data, [Post Organic keyword])"
    using assms(1,3) by (simp add: upt_conv_Cons)
  have f: "fst (fetch Organic keyword serp) = data"
    using fetch_retried_then [OF assms(2) assms(1) last] by simp
  with assms(4) have "\<not> truthy (fst (fetch Organic keyword serp))"
    by simp
  then show ?thesis
    using f by (simp add: process_primary_falsy fetch_serp_data_fetch posts_fetch_other)
qed

theorem falsy_body_counts_failed_witness:
  "(0::nat) < MAX_RETRIES \<and>
   \<not> truthy (JArr []) \<and>
   fst (fetch_serp_data ''seo'' (\<lambda>i. Response 200 (JArr []))) = (''seo'', JArr []) \<and>
   process_single_keyword ''seo'' (\<lambda>i. Response 200 (JArr [])) (\<lambda>i. Response 200 JNull)
       \<lparr>total = 1, completed = 0, failed = 0,
        ai_overview_rows = 0, organic_rows = 0, ai_mode_rows = 0\<rparr> =
     (Inr [],
      \<lparr>total = 1, completed = 0, failed = 1,
       ai_overview_rows = 0, organic_rows = 0, ai_mode_rows = 0\<rparr>,
      [Acquire, Post Organic ''seo'', Release])"
  using falsy_body_counts_failed
    [of 0 "\<lambda>i. Response 200 (JArr [])" "JArr []" "''seo''" "\<lambda>i. Response 200 JNull"
        "\<lparr>total = 1, completed = 0, failed = 0,
          ai_overview_rows = 0, organic_rows = 0, ai_mode_rows = 0\<rparr>"]
  by (simp add: fetch_serp_data_def fetch_def MAX_RETRIES_def upt_conv_Cons)

end
